theory Spec2Isabelle
  imports Complex_Main "HOL-Library.Sublist"
begin

section \<open>Python values, exceptions and string helpers\<close>

text \<open>
  The tracker is a sequential Python script built around four classes:
  \<open>SearchManager\<close>, \<open>ContentExtractor\<close>, \<open>AIAnalyzer\<close> and \<open>DrugApprovalTracker\<close>.
  Every method is embedded as a function that takes the state of the world and returns a
  result together with the new world.  A raised exception is the value \<open>Inl e\<close>, a normal
  return is \<open>Inr v\<close>; each \<open>try ... except Exception\<close> of the source is a case split on
  that sum.  Only subclasses of \<open>Exception\<close> are modelled (the handlers of the source
  catch exactly those); interpreter signals such as \<open>KeyboardInterrupt\<close> are outside
  the model, and a call to the logger never raises.
\<close>

datatype exn = Exception string

fun str_exn :: "exn \<Rightarrow> string" where
  "str_exn (Exception m) = m"

text \<open>
  JSON values and the values stored in result dictionaries.  A Python \<open>dict\<close> with
  string keys is a map; a Python \<open>str\<close> is a \<open>string\<close>, one list element per
  character of the Python string.
\<close>

datatype pyval =
    PNone
  | PBool bool
  | PInt int
  | PFloat real
  | PStr string
  | PList "pyval list"
  | PDict "string \<Rightarrow> pyval option"

type_synonym pydict = "string \<rightharpoonup> pyval"

text \<open>A search hit is a dictionary; the values the script reads from it (\<open>link\<close>,
  \<open>title\<close>, \<open>snippet\<close>) are strings.\<close>

type_synonym hit = "string \<rightharpoonup> string"

text \<open>\<open>d.get(k, default)\<close>\<close>

definition dict_get :: "('k \<rightharpoonup> 'v) \<Rightarrow> 'k \<Rightarrow> 'v \<Rightarrow> 'v" where
  "dict_get d k dflt = (case d k of None \<Rightarrow> dflt | Some v \<Rightarrow> v)"

text \<open>\<open>xs[:n]\<close>: a negative bound counts from the end, as Python slices do.\<close>

definition py_slice_to :: "int \<Rightarrow> 'a list \<Rightarrow> 'a list" where
  "py_slice_to n xs =
     (if 0 \<le> n then take (nat n) xs else take (length xs - nat (- n)) xs)"

text \<open>
  \<open>str.strip()\<close> removes white space at both ends, \<open>str.strip(chars)\<close> removes at both
  ends every character that occurs in \<open>chars\<close> (a set of characters, not a prefix).
  White space and line boundaries are those of Python in the one-byte range.
\<close>

definition is_space :: "char \<Rightarrow> bool" where
  "is_space c =
     (c = CHR 0x20 \<or> c = CHR 0x09 \<or> c = CHR 0x0A \<or> c = CHR 0x0B \<or> c = CHR 0x0C \<or>
      c = CHR 0x0D \<or> c = CHR 0x1C \<or> c = CHR 0x1D \<or> c = CHR 0x1E \<or> c = CHR 0x1F \<or>
      c = CHR 0x85 \<or> c = CHR 0xA0)"

definition strip_with :: "(char \<Rightarrow> bool) \<Rightarrow> string \<Rightarrow> string" where
  "strip_with P s = rev (dropWhile P (rev (dropWhile P s)))"

definition py_strip :: "string \<Rightarrow> string" where
  "py_strip s = strip_with is_space s"

definition py_strip_chars :: "string \<Rightarrow> string \<Rightarrow> string" where
  "py_strip_chars chars s = strip_with (\<lambda>c. c \<in> set chars) s"

definition is_linebreak :: "char \<Rightarrow> bool" where
  "is_linebreak c =
     (c = CHR 0x0A \<or> c = CHR 0x0B \<or> c = CHR 0x0C \<or> c = CHR 0x0D \<or>
      c = CHR 0x1C \<or> c = CHR 0x1D \<or> c = CHR 0x1E \<or> c = CHR 0x85)"

text \<open>\<open>str.splitlines()\<close>: \<open>\r\n\<close> is one boundary, and no empty last line is
  produced after a final boundary.\<close>

fun splitlines_from :: "string \<Rightarrow> string \<Rightarrow> string list" where
  "splitlines_from cur [] = (if cur = [] then [] else [cur])"
| "splitlines_from cur [c] = (if is_linebreak c then [cur] else [cur @ [c]])"
| "splitlines_from cur (c # d # cs) =
     (if c = CHR 0x0D \<and> d = CHR 0x0A then cur # splitlines_from [] cs
      else if is_linebreak c then cur # splitlines_from [] (d # cs)
      else splitlines_from (cur @ [c]) (d # cs))"

definition splitlines :: "string \<Rightarrow> string list" where
  "splitlines s = splitlines_from [] s"

text \<open>\<open>sep.join(parts)\<close>\<close>

fun join :: "string \<Rightarrow> string list \<Rightarrow> string" where
  "join sep [] = []"
| "join sep [x] = x"
| "join sep (x # y # ys) = x @ sep @ join sep (y # ys)"

section \<open>Configuration\<close>

record Config =
  max_results :: int
  serpapi_delay :: real
  gemini_delay :: real
  max_retries :: int
  request_timeout :: int
  max_text_length :: int

definition config :: Config where
  "config = \<lparr> max_results = 10, serpapi_delay = 2.0, gemini_delay = 1.5,
              max_retries = 3, request_timeout = 30, max_text_length = 8000 \<rparr>"

section \<open>The world and the external collaborators\<close>

text \<open>
  The calls the script makes to the outside, in call order, together with the pauses of
  \<open>time.sleep\<close> and the lines sent to the logger.
\<close>

datatype event =
    Search_call "string \<rightharpoonup> pyval"
  | Http_get string
  | Pdf_open string
  | Html_parse
  | Generate_call string
  | Sleep real
  | Log_info string
  | Log_error string

text \<open>
  \<open>outside\<close> is the state of everything the script does not own: the search provider,
  the web servers, the generative model and the clock.  \<open>tmp_files\<close> are the paths of
  the temporary files of this process that exist on disk.
\<close>

record 'o world =
  outside :: 'o
  tmp_files :: "string set"
  trace :: "event list"

text \<open>The HTTP response object of \<open>requests\<close>: header names are lower case.\<close>

record response =
  status_code :: int
  headers :: "string \<rightharpoonup> string"
  resp_content :: string
  resp_text :: string

text \<open>
  The libraries the script calls are parameters of the model; every theorem holds for
  every behaviour of them.
  \<^item> \<open>get_dict params\<close>: \<open>GoogleSearch(params).get_dict()\<close>; the result is the value
    under \<open>organic_results\<close> of the returned dictionary, \<open>None\<close> when the key is absent.
  \<^item> \<open>requests_get url headers timeout\<close>: \<open>requests.get\<close>.
  \<^item> \<open>raise_for_status r\<close>: the exception \<open>Response.raise_for_status\<close> raises, if any.
  \<^item> \<open>named_temporary_file\<close>: the path \<open>tempfile.NamedTemporaryFile\<close> picks.
  \<^item> \<open>fitz_open bytes\<close>: \<open>fitz.open\<close> on a file holding \<open>bytes\<close>: it raises, or yields the
    pages, each page being what its \<open>get_text()\<close> does.
  \<^item> \<open>soup_get_text html\<close>: \<open>BeautifulSoup(html, 'html.parser')\<close>, the removal of the
    \<open>script\<close> and \<open>style\<close> elements and \<open>get_text()\<close>.
  \<^item> \<open>generate_content prompt\<close>: \<open>model.generate_content\<close>; the response is what its
    \<open>.text\<close> accessor does.
  \<^item> \<open>json_loads\<close>: \<open>json.loads\<close>.
  \<^item> \<open>now_isoformat\<close>: \<open>datetime.now().isoformat()\<close>.
  \<^item> \<open>sleep\<close>: what \<open>time.sleep\<close> does to the outside (time passes).
\<close>

record 'o env =
  get_dict :: "(string \<rightharpoonup> pyval) \<Rightarrow> 'o \<Rightarrow> (exn + hit list option) \<times> 'o"
  requests_get :: "string \<Rightarrow> (string \<times> string) list \<Rightarrow> int \<Rightarrow> 'o \<Rightarrow> (exn + response) \<times> 'o"
  raise_for_status :: "response \<Rightarrow> exn option"
  named_temporary_file :: "string \<Rightarrow> 'o \<Rightarrow> string"
  fitz_open :: "string \<Rightarrow> exn + (exn + string) list"
  soup_get_text :: "string \<Rightarrow> exn + string"
  generate_content :: "string \<Rightarrow> 'o \<Rightarrow> (exn + (exn + string)) \<times> 'o"
  json_loads :: "string \<Rightarrow> exn + pyval"
  now_isoformat :: "'o \<Rightarrow> string"
  sleep :: "real \<Rightarrow> 'o \<Rightarrow> 'o"

definition emit :: "event list \<Rightarrow> 'o world \<Rightarrow> 'o world" where
  "emit evs w = w\<lparr>trace := trace w @ evs\<rparr>"

text \<open>\<open>time.sleep(d)\<close>: a negative \<open>d\<close> raises \<open>ValueError\<close> and nothing is waited.\<close>

definition time_sleep :: "'o env \<Rightarrow> real \<Rightarrow> 'o world \<Rightarrow> exn + 'o world" where
  "time_sleep env d w =
     (if d < 0 then Inl (Exception ''sleep length must be non-negative'')
      else Inr (w\<lparr>outside := sleep env d (outside w), trace := trace w @ [Sleep d]\<rparr>))"

section \<open>SearchManager\<close>

definition build_query :: "string \<Rightarrow> string" where
  \<open>build_query agency_domain =
     (if agency_domain = ''fda.gov'' then ''site:fda.gov drug approval "approved" -generic''
      else if agency_domain = ''ema.europa.eu''
        then ''site:ema.europa.eu "marketing authorisation" drug approved''
      else if agency_domain = ''cdsco.gov.in''
        then ''site:cdsco.gov.in drug approval "approved" license''
      else ''drug approval "approved" FDA OR EMA OR CDSCO'')\<close>

definition search_params :: "string \<Rightarrow> string \<Rightarrow> string \<Rightarrow> int \<Rightarrow> (string \<rightharpoonup> pyval)" where
  "search_params api_key agency_domain date_range num_results =
     [''q'' \<mapsto> PStr (build_query agency_domain),
      ''api_key'' \<mapsto> PStr api_key,
      ''engine'' \<mapsto> PStr ''google'',
      ''num'' \<mapsto> PInt num_results,
      ''tbs'' \<mapsto> PStr (''qdr:'' @ date_range),
      ''safe'' \<mapsto> PStr ''active'']"

definition search_drug_approvals ::
  "'o env \<Rightarrow> Config \<Rightarrow> string \<Rightarrow> string \<Rightarrow> string \<Rightarrow> int \<Rightarrow> 'o world
     \<Rightarrow> (exn + hit list) \<times> 'o world" where
  "search_drug_approvals env cfg api_key agency_domain date_range num_results w =
     (let params = search_params api_key agency_domain date_range num_results;
          w0 = emit [Log_info (''Searching: '' @ build_query agency_domain), Search_call params] w
      in case get_dict env params (outside w0) of
           (Inl e, out) \<Rightarrow>
             (Inr [], emit [Log_error (''Search failed: '' @ str_exn e)] (w0\<lparr>outside := out\<rparr>))
         | (Inr results, out) \<Rightarrow>
             (case time_sleep env (serpapi_delay cfg) (w0\<lparr>outside := out\<rparr>) of
                Inl e \<Rightarrow>
                  (Inr [], emit [Log_error (''Search failed: '' @ str_exn e)] (w0\<lparr>outside := out\<rparr>))
              | Inr w1 \<Rightarrow> (Inr (case results of None \<Rightarrow> [] | Some hits \<Rightarrow> hits), w1)))"

section \<open>ContentExtractor\<close>

text \<open>The loop \<open>for page in doc: text += page.get_text()\<close>.\<close>

fun page_loop :: "string \<Rightarrow> (exn + string) list \<Rightarrow> exn + string" where
  "page_loop text [] = Inr text"
| "page_loop text (Inl e # pages) = Inl e"
| "page_loop text (Inr t # pages) = page_loop (text @ t) pages"

text \<open>
  The body of the \<open>try\<close> of \<open>_extract_pdf_content\<close>: the temporary file is created with
  \<open>delete=False\<close>, so leaving the \<open>with\<close> block keeps it; \<open>os.unlink\<close> is reached only
  after the pages were read.  Creating, writing and unlinking the file on the local disk
  are taken to succeed; \<open>fitz.open\<close> and every \<open>get_text\<close> may raise.
\<close>

definition extract_pdf_content_try ::
  "'o env \<Rightarrow> Config \<Rightarrow> string \<Rightarrow> 'o world \<Rightarrow> (exn + string) \<times> 'o world" where
  "extract_pdf_content_try env cfg pdf_content w =
     (let tmp_path = named_temporary_file env ''.pdf'' (outside w);
          w1 = emit [Pdf_open tmp_path] (w\<lparr>tmp_files := insert tmp_path (tmp_files w)\<rparr>)
      in case fitz_open env pdf_content of
           Inl e \<Rightarrow> (Inl e, w1)
         | Inr doc \<Rightarrow>
             (case page_loop [] doc of
                Inl e \<Rightarrow> (Inl e, w1)
              | Inr text \<Rightarrow>
                  (Inr (py_slice_to (max_text_length cfg) text),
                   w1\<lparr>tmp_files := tmp_files w1 - {tmp_path}\<rparr>)))"

definition extract_pdf_content ::
  "'o env \<Rightarrow> Config \<Rightarrow> string \<Rightarrow> 'o world \<Rightarrow> (exn + string) \<times> 'o world" where
  "extract_pdf_content env cfg pdf_content w =
     (case extract_pdf_content_try env cfg pdf_content w of
        (Inl e, w') \<Rightarrow> (Inr [], emit [Log_error (''PDF parse failed: '' @ str_exn e)] w')
      | (Inr text, w') \<Rightarrow> (Inr text, w'))"

text \<open>\<open>' '.join(line.strip() for line in soup.get_text().splitlines() if line.strip())\<close>\<close>

definition join_stripped_lines :: "string \<Rightarrow> string" where
  "join_stripped_lines soup_text =
     join '' '' (map py_strip (filter (\<lambda>line. py_strip line \<noteq> []) (splitlines soup_text)))"

definition extract_html_content_try ::
  "'o env \<Rightarrow> Config \<Rightarrow> string \<Rightarrow> 'o world \<Rightarrow> (exn + string) \<times> 'o world" where
  "extract_html_content_try env cfg html w =
     (let w1 = emit [Html_parse] w
      in case soup_get_text env html of
           Inl e \<Rightarrow> (Inl e, w1)
         | Inr soup_text \<Rightarrow>
             (let text = join_stripped_lines soup_text
              in (Inr (py_slice_to (max_text_length cfg) text), w1)))"

definition extract_html_content ::
  "'o env \<Rightarrow> Config \<Rightarrow> string \<Rightarrow> 'o world \<Rightarrow> (exn + string) \<times> 'o world" where
  "extract_html_content env cfg html w =
     (case extract_html_content_try env cfg html w of
        (Inl e, w') \<Rightarrow> (Inr [], emit [Log_error (''HTML parse failed: '' @ str_exn e)] w')
      | (Inr text, w') \<Rightarrow> (Inr text, w'))"

text \<open>\<open>'pdf' in response.headers.get('content-type', '')\<close>\<close>

definition pdf_content_type :: "response \<Rightarrow> bool" where
  "pdf_content_type r = sublist ''pdf'' (dict_get (headers r) ''content-type'' [])"

definition extract_content_try ::
  "'o env \<Rightarrow> Config \<Rightarrow> string \<Rightarrow> 'o world \<Rightarrow> (exn + string) \<times> 'o world" where
  "extract_content_try env cfg url w =
     (let hdrs = [(''User-Agent'', ''Mozilla/5.0'')];
          w0 = emit [Http_get url] w
      in case requests_get env url hdrs (request_timeout cfg) (outside w0) of
           (Inl e, out) \<Rightarrow> (Inl e, w0\<lparr>outside := out\<rparr>)
         | (Inr r, out) \<Rightarrow>
             (case raise_for_status env r of
                Some e \<Rightarrow> (Inl e, w0\<lparr>outside := out\<rparr>)
              | None \<Rightarrow>
                  if pdf_content_type r
                  then extract_pdf_content env cfg (resp_content r) (w0\<lparr>outside := out\<rparr>)
                  else extract_html_content env cfg (resp_text r) (w0\<lparr>outside := out\<rparr>)))"

definition extract_content ::
  "'o env \<Rightarrow> Config \<Rightarrow> string \<Rightarrow> 'o world \<Rightarrow> (exn + string) \<times> 'o world" where
  "extract_content env cfg url w =
     (case extract_content_try env cfg url w of
        (Inl e, w') \<Rightarrow>
          (Inr [], emit [Log_error (''Content extraction failed for '' @ url @ '': '' @ str_exn e)] w')
      | (Inr text, w') \<Rightarrow> (Inr text, w'))"

section \<open>AIAnalyzer\<close>

definition nl :: string where
  "nl = [CHR 0x0A]"

text \<open>The f-string of \<open>analyze_content\<close>, line by line.\<close>

definition build_prompt :: "string \<Rightarrow> string \<Rightarrow> string" where
  \<open>build_prompt content url =
     nl @
     ''Analyze this drug approval document and extract key information in JSON format:'' @ nl @
     nl @
     ''Content: '' @ py_slice_to 4000 content @ nl @
     nl @
     ''{'' @ nl @
     ''    "drug_name": "",'' @ nl @
     ''    "sponsor_company": "",'' @ nl @
     ''    "approval_date": "",'' @ nl @
     ''    "indication": "",'' @ nl @
     ''    "drug_type": "",'' @ nl @
     ''    "regulatory_action": "",'' @ nl @
     ''    "approval_status": "",'' @ nl @
     ''    "therapeutic_area": "",'' @ nl @
     ''    "source_agency": "",'' @ nl @
     ''    "source_url": "'' @ url @ ''",'' @ nl @
     ''    "confidence_score": ""'' @ nl @
     ''}'' @ nl @
     nl @
     ''If information is unavailable, return "Not specified".'' @ nl\<close>

text \<open>\<open>result[key] = value\<close>: only a dictionary accepts a string key; on every other
  JSON value Python raises \<open>TypeError\<close>, with the message given here.\<close>

definition no_item_assignment :: "string \<Rightarrow> exn" where
  "no_item_assignment type_name =
     Exception ([CHR 0x27] @ type_name @ [CHR 0x27] @ '' object does not support item assignment'')"

fun set_item :: "pyval \<Rightarrow> string \<Rightarrow> pyval \<Rightarrow> exn + pydict" where
  "set_item (PDict d) k v = Inr (d(k \<mapsto> v))"
| "set_item (PList xs) k v = Inl (Exception ''list indices must be integers or slices, not str'')"
| "set_item PNone k v = Inl (no_item_assignment ''NoneType'')"
| "set_item (PBool b) k v = Inl (no_item_assignment ''bool'')"
| "set_item (PInt i) k v = Inl (no_item_assignment ''int'')"
| "set_item (PFloat x) k v = Inl (no_item_assignment ''float'')"
| "set_item (PStr t) k v = Inl (no_item_assignment ''str'')"

text \<open>\<open>response.text.strip().strip("```json").strip("```")\<close>\<close>

definition strip_fences :: "string \<Rightarrow> string" where
  "strip_fences t = py_strip_chars ''```'' (py_strip_chars ''```json'' (py_strip t))"

definition analyze_content_try ::
  "'o env \<Rightarrow> Config \<Rightarrow> string \<Rightarrow> string \<Rightarrow> 'o world \<Rightarrow> (exn + pydict) \<times> 'o world" where
  "analyze_content_try env cfg content url w =
     (let prompt = build_prompt content url;
          w0 = emit [Generate_call prompt] w
      in case generate_content env prompt (outside w0) of
           (Inl e, out) \<Rightarrow> (Inl e, w0\<lparr>outside := out\<rparr>)
         | (Inr response, out) \<Rightarrow>
             (case time_sleep env (gemini_delay cfg) (w0\<lparr>outside := out\<rparr>) of
                Inl e \<Rightarrow> (Inl e, w0\<lparr>outside := out\<rparr>)
              | Inr w1 \<Rightarrow>
                  (case response of
                     Inl e \<Rightarrow> (Inl e, w1)
                   | Inr response_text \<Rightarrow>
                       (case json_loads env (strip_fences response_text) of
                          Inl e \<Rightarrow> (Inl e, w1)
                        | Inr result \<Rightarrow>
                            (set_item result ''extraction_timestamp''
                               (PStr (now_isoformat env (outside w1))), w1)))))"

definition fallback_record :: "string \<Rightarrow> string \<Rightarrow> pydict" where
  "fallback_record url timestamp =
     [''drug_name'' \<mapsto> PStr ''Analysis failed'',
      ''sponsor_company'' \<mapsto> PStr ''Not specified'',
      ''approval_date'' \<mapsto> PStr ''Not specified'',
      ''indication'' \<mapsto> PStr ''Not specified'',
      ''drug_type'' \<mapsto> PStr ''Not specified'',
      ''regulatory_action'' \<mapsto> PStr ''Not specified'',
      ''approval_status'' \<mapsto> PStr ''Not specified'',
      ''therapeutic_area'' \<mapsto> PStr ''Not specified'',
      ''source_agency'' \<mapsto> PStr ''Not specified'',
      ''source_url'' \<mapsto> PStr url,
      ''confidence_score'' \<mapsto> PFloat 0.0,
      ''extraction_timestamp'' \<mapsto> PStr timestamp]"

definition analyze_content ::
  "'o env \<Rightarrow> Config \<Rightarrow> string \<Rightarrow> string \<Rightarrow> 'o world \<Rightarrow> (exn + pydict) \<times> 'o world" where
  "analyze_content env cfg content url w =
     (case analyze_content_try env cfg content url w of
        (Inl e, w') \<Rightarrow>
          (let w2 = emit [Log_error (''AI analysis failed: '' @ str_exn e)] w'
           in (Inr (fallback_record url (now_isoformat env (outside w2))), w2))
      | (Inr result, w') \<Rightarrow> (Inr result, w'))"

section \<open>DrugApprovalTracker\<close>

text \<open>\<open>analysis.update({'search_title': ..., 'search_snippet': ..., 'search_position': i + 1})\<close>\<close>

definition add_provenance :: "nat \<Rightarrow> hit \<Rightarrow> pydict \<Rightarrow> pydict" where
  "add_provenance i res analysis =
     analysis(''search_title'' \<mapsto> PStr (dict_get res ''title'' []),
              ''search_snippet'' \<mapsto> PStr (dict_get res ''snippet'' []),
              ''search_position'' \<mapsto> PInt (int i + 1))"

text \<open>The loop of \<open>track_approvals\<close> over \<open>enumerate(results)\<close>; \<open>processed\<close> is the
  list the loop appends to.\<close>

fun track_loop ::
  "'o env \<Rightarrow> Config \<Rightarrow> (nat \<times> hit) list \<Rightarrow> pydict list \<Rightarrow> 'o world
     \<Rightarrow> (exn + pydict list) \<times> 'o world" where
  "track_loop env cfg [] processed w = (Inr processed, w)"
| "track_loop env cfg ((i, res) # rest) processed w =
     (let url = dict_get res ''link'' []
      in case extract_content env cfg url w of
           (Inl e, w1) \<Rightarrow> (Inl e, w1)
         | (Inr content, w1) \<Rightarrow>
             if content = [] then track_loop env cfg rest processed w1
             else (case analyze_content env cfg content url w1 of
                     (Inl e, w2) \<Rightarrow> (Inl e, w2)
                   | (Inr analysis, w2) \<Rightarrow>
                       track_loop env cfg rest (processed @ [add_provenance i res analysis]) w2))"

definition track_approvals ::
  "'o env \<Rightarrow> Config \<Rightarrow> string \<Rightarrow> string \<Rightarrow> string \<Rightarrow> int \<Rightarrow> 'o world
     \<Rightarrow> (exn + pydict list) \<times> 'o world" where
  "track_approvals env cfg api_key agency_domain date_range num_results w =
     (case search_drug_approvals env cfg api_key agency_domain date_range num_results w of
        (Inl e, w1) \<Rightarrow> (Inl e, w1)
      | (Inr results, w1) \<Rightarrow> track_loop env cfg (List.enumerate 0 results) [] w1)"

section \<open>Predicates used in the statements\<close>

text \<open>
  The failures the \<open>try\<close> block of \<open>extract_content\<close> can meet, stage by stage: the request
  raises (network error, timeout), \<open>raise_for_status\<close> raises (error status), the PDF
  cannot be opened or one of its pages cannot be read, the HTML parser raises.
\<close>

definition extraction_fails :: "'o env \<Rightarrow> Config \<Rightarrow> string \<Rightarrow> 'o world \<Rightarrow> bool" where
  "extraction_fails env cfg url w =
     (case requests_get env url [(''User-Agent'', ''Mozilla/5.0'')] (request_timeout cfg) (outside w) of
        (Inl e, out) \<Rightarrow> True
      | (Inr r, out) \<Rightarrow>
          (case raise_for_status env r of
             Some e \<Rightarrow> True
           | None \<Rightarrow>
               if pdf_content_type r
               then (case fitz_open env (resp_content r) of
                       Inl e \<Rightarrow> True
                     | Inr doc \<Rightarrow> isl (page_loop [] doc))
               else isl (soup_get_text env (resp_text r))))"

text \<open>
  The generative call raises, its answer has no text, or the text left after the code
  fences are stripped is not JSON.
\<close>

definition generation_fails :: "'o env \<Rightarrow> string \<Rightarrow> 'o \<Rightarrow> bool" where
  "generation_fails env prompt out =
     (case fst (generate_content env prompt out) of
        Inl e \<Rightarrow> True
      | Inr (Inl e) \<Rightarrow> True
      | Inr (Inr response_text) \<Rightarrow> isl (json_loads env (strip_fences response_text)))"

fun is_log :: "event \<Rightarrow> bool" where
  "is_log (Log_info m) = True"
| "is_log (Log_error m) = True"
| "is_log ev = False"

text \<open>The provenance fields of a result record.\<close>

definition provenance :: "pydict \<Rightarrow> pyval option \<times> pyval option \<times> pyval option" where
  "provenance r = (r ''search_position'', r ''search_title'', r ''search_snippet'')"

definition hit_provenance :: "nat \<times> hit \<Rightarrow> pyval option \<times> pyval option \<times> pyval option" where
  "hit_provenance p =
     (Some (PInt (int (fst p) + 1)),
      Some (PStr (dict_get (snd p) ''title'' [])),
      Some (PStr (dict_get (snd p) ''snippet'' [])))"

section \<open>A concrete environment\<close>

text \<open>
  Four search hits: the first cannot be fetched, the second and the fourth are HTML pages
  served without a content type, the third is a PDF that cannot be opened.  The model
  answers with a fenced JSON object that has two keys and a foreign \<open>source_url\<close>.
\<close>

definition demo_page :: string where
  "demo_page = ''  Drug X approved  '' @ nl @ nl @ '' for indication Y''"

definition demo_response :: "string \<Rightarrow> response" where
  "demo_response url =
     (if url = ''https://www.fda.gov/label.pdf''
      then \<lparr> status_code = 200, headers = [''content-type'' \<mapsto> ''application/pdf''],
             resp_content = ''%PDF-1.7 broken'', resp_text = [] \<rparr>
      else if url = ''https://www.fda.gov/gone''
      then \<lparr> status_code = 404, headers = [''content-type'' \<mapsto> ''text/html''],
             resp_content = [], resp_text = ''Not Found'' \<rparr>
      else \<lparr> status_code = 200, headers = Map.empty,
             resp_content = [], resp_text = demo_page \<rparr>)"

definition demo_json :: string where
  \<open>demo_json = ''{"drug_name": "Drug X", "source_url": "https://example.org/other"}''\<close>

definition demo_answer :: string where
  "demo_answer = ''```json'' @ nl @ demo_json @ nl @ ''```''"

definition demo_hit_down :: hit where
  "demo_hit_down =
     [''link'' \<mapsto> ''https://www.fda.gov/down'', ''title'' \<mapsto> ''First'', ''snippet'' \<mapsto> ''one'']"

definition demo_hit_news :: hit where
  "demo_hit_news =
     [''link'' \<mapsto> ''https://www.fda.gov/news'', ''title'' \<mapsto> ''Second'', ''snippet'' \<mapsto> ''two'']"

definition demo_hit_pdf :: hit where
  "demo_hit_pdf =
     [''link'' \<mapsto> ''https://www.fda.gov/label.pdf'', ''title'' \<mapsto> ''Third'', ''snippet'' \<mapsto> ''three'']"

definition demo_hit_press :: hit where
  "demo_hit_press =
     [''link'' \<mapsto> ''https://www.fda.gov/press'', ''title'' \<mapsto> ''Fourth'', ''snippet'' \<mapsto> ''four'']"

definition demo_hits :: "hit list" where
  "demo_hits = [demo_hit_down, demo_hit_news, demo_hit_pdf, demo_hit_press]"

definition demo_env :: "nat env" where
  "demo_env =
     \<lparr> get_dict = (\<lambda>params out. (Inr (Some demo_hits), Suc out)),
       requests_get = (\<lambda>url hdrs timeout out.
          (if url = ''https://www.fda.gov/down'' then Inl (Exception ''ConnectionError'')
           else Inr (demo_response url), Suc out)),
       raise_for_status = (\<lambda>r. if 400 \<le> status_code r \<and> status_code r < 600
                                 then Some (Exception ''HTTPError'') else None),
       named_temporary_file = (\<lambda>suffix out. ''/tmp/tmp'' @ suffix),
       fitz_open = (\<lambda>bytes. if bytes = ''%PDF-1.7 broken''
                             then Inl (Exception ''cannot open broken document'')
                             else Inr [Inr ''Page one. '', Inr ''Page two.'']),
       soup_get_text = (\<lambda>html. Inr html),
       generate_content = (\<lambda>prompt out. (Inr (Inr demo_answer), Suc out)),
       json_loads = (\<lambda>s. if py_strip s = demo_json
                            then Inr (PDict [''drug_name'' \<mapsto> PStr ''Drug X'',
                                             ''source_url'' \<mapsto> PStr ''https://example.org/other''])
                            else Inl (Exception ''JSONDecodeError'')),
       now_isoformat = (\<lambda>out. ''2024-05-01T12:00:00''),
       sleep = (\<lambda>d out. out) \<rparr>"

definition demo_env_model_down :: "nat env" where
  "demo_env_model_down =
     demo_env\<lparr>generate_content := (\<lambda>prompt out. (Inl (Exception ''429 quota exceeded''), Suc out))\<rparr>"

definition demo_env_search_down :: "nat env" where
  "demo_env_search_down =
     demo_env\<lparr>get_dict := (\<lambda>params out. (Inl (Exception ''connection refused''), Suc out))\<rparr>"

definition demo_env_model_prose :: "nat env" where
  "demo_env_model_prose =
     demo_env\<lparr>generate_content :=
       (\<lambda>prompt out. (Inr (Inr ''Sorry, I cannot read this document.''), Suc out))\<rparr>"

definition demo_world :: "nat world" where
  "demo_world = \<lparr> outside = 0, tmp_files = {}, trace = [] \<rparr>"

text \<open>The record the analyzer returns for the fenced answer of the demo model.\<close>

definition demo_record :: pydict where
  "demo_record =
     [''drug_name'' \<mapsto> PStr ''Drug X'', ''source_url'' \<mapsto> PStr ''https://example.org/other'',
      ''extraction_timestamp'' \<mapsto> PStr ''2024-05-01T12:00:00'']"

text \<open>The world after the search call of the demo run.\<close>

definition demo_world_searched :: "nat world" where
  "demo_world_searched =
     \<lparr> outside = 1, tmp_files = {},
       trace = [Log_info (''Searching: '' @ build_query ''fda.gov''),
                Search_call (search_params ''key'' ''fda.gov'' ''m'' 10),
                Sleep (serpapi_delay config)] \<rparr>"

text \<open>A configuration with a cap small enough to be exceeded by the demo documents.\<close>

definition small_cap :: Config where
  "small_cap = config\<lparr>max_text_length := 6\<rparr>"

section \<open>Every method returns\<close>

lemma extract_pdf_content_returns:
  "\<exists>text w'. extract_pdf_content env cfg pdf_content w = (Inr text, w')"
  by (simp add: extract_pdf_content_def split: prod.split sum.split)

lemma extract_html_content_returns:
  "\<exists>text w'. extract_html_content env cfg html w = (Inr text, w')"
  by (simp add: extract_html_content_def split: prod.split sum.split)

lemma extract_content_returns:
  "\<exists>text w'. extract_content env cfg url w = (Inr text, w')"
  by (simp add: extract_content_def split: prod.split sum.split)

lemma analyze_content_returns:
  "\<exists>analysis w'. analyze_content env cfg content url w = (Inr analysis, w')"
  by (simp add: analyze_content_def Let_def split: prod.split sum.split)

lemma track_loop_returns:
  "\<exists>out w'. track_loop env cfg hits processed w = (Inr out, w')"
proof (induction hits arbitrary: processed w)
  case Nil
  show ?case by simp
next
  case (Cons h hits)
  obtain i res where h: "h = (i, res)" by (cases h)
  obtain content w1 where ex: "extract_content env cfg (dict_get res ''link'' []) w = (Inr content, w1)"
    using extract_content_returns by blast
  show ?case
  proof (cases "content = []")
    case True
    with h ex Cons.IH [of processed w1] show ?thesis by simp
  next
    case False
    obtain analysis w2 where
      an: "analyze_content env cfg content (dict_get res ''link'' []) w1 = (Inr analysis, w2)"
      using analyze_content_returns by blast
    with False h ex Cons.IH [of "processed @ [add_provenance i res analysis]" w2]
    show ?thesis by simp
  qed
qed

section \<open>Helper facts\<close>

lemma py_slice_to_length: "0 \<le> n \<Longrightarrow> int (length (py_slice_to n xs)) \<le> n"
  by (simp add: py_slice_to_def)

lemma py_slice_to_take: "0 \<le> n \<Longrightarrow> py_slice_to n xs = take (nat n) xs"
  by (simp add: py_slice_to_def)

lemma outside_emit [simp]: "outside (emit evs w) = outside w"
  by (simp add: emit_def)

lemma tmp_files_emit [simp]: "tmp_files (emit evs w) = tmp_files w"
  by (simp add: emit_def)

lemma trace_emit [simp]: "trace (emit evs w) = trace w @ evs"
  by (simp add: emit_def)

lemma extract_pdf_content_cases:
  "extract_pdf_content env cfg b w =
     (let p = named_temporary_file env ''.pdf'' (outside w);
          w1 = emit [Pdf_open p] (w\<lparr>tmp_files := insert p (tmp_files w)\<rparr>)
      in case fitz_open env b of
           Inl e \<Rightarrow> (Inr [], emit [Log_error (''PDF parse failed: '' @ str_exn e)] w1)
         | Inr doc \<Rightarrow>
             (case page_loop [] doc of
                Inl e \<Rightarrow> (Inr [], emit [Log_error (''PDF parse failed: '' @ str_exn e)] w1)
              | Inr text \<Rightarrow> (Inr (py_slice_to (max_text_length cfg) text),
                             w1\<lparr>tmp_files := tmp_files w1 - {p}\<rparr>)))"
  by (simp add: extract_pdf_content_def extract_pdf_content_try_def Let_def split: sum.split)

lemma extract_html_content_cases:
  "extract_html_content env cfg html w =
     (case soup_get_text env html of
        Inl e \<Rightarrow> (Inr [], emit [Html_parse, Log_error (''HTML parse failed: '' @ str_exn e)] w)
      | Inr soup_text \<Rightarrow>
          (Inr (py_slice_to (max_text_length cfg) (join_stripped_lines soup_text)),
           emit [Html_parse] w))"
  by (simp add: extract_html_content_def extract_html_content_try_def Let_def emit_def
        split: sum.split)

lemma extract_pdf_content_failure:
  "(case fitz_open env b of Inl e \<Rightarrow> True | Inr doc \<Rightarrow> isl (page_loop [] doc))
     \<Longrightarrow> fst (extract_pdf_content env cfg b w) = Inr []"
  by (auto simp: extract_pdf_content_cases Let_def split: sum.splits)

lemma extract_html_content_failure:
  "isl (soup_get_text env html) \<Longrightarrow> fst (extract_html_content env cfg html w) = Inr []"
  by (auto simp: extract_html_content_cases split: sum.splits)

lemma extract_content_cases:
  "extract_content env cfg url w =
     (let w0 = emit [Http_get url] w
      in case requests_get env url [(''User-Agent'', ''Mozilla/5.0'')] (request_timeout cfg) (outside w) of
           (Inl e, out) \<Rightarrow>
             (Inr [], emit [Log_error (''Content extraction failed for '' @ url @ '': '' @ str_exn e)]
                        (w0\<lparr>outside := out\<rparr>))
         | (Inr r, out) \<Rightarrow>
             (case raise_for_status env r of
                Some e \<Rightarrow>
                  (Inr [], emit [Log_error (''Content extraction failed for '' @ url @ '': '' @ str_exn e)]
                             (w0\<lparr>outside := out\<rparr>))
              | None \<Rightarrow>
                  if pdf_content_type r
                  then extract_pdf_content env cfg (resp_content r) (w0\<lparr>outside := out\<rparr>)
                  else extract_html_content env cfg (resp_text r) (w0\<lparr>outside := out\<rparr>)))"
proof -
  obtain res out where g:
    "requests_get env url [(''User-Agent'', ''Mozilla/5.0'')] (request_timeout cfg) (outside w) = (res, out)"
    by (cases "requests_get env url [(''User-Agent'', ''Mozilla/5.0'')] (request_timeout cfg) (outside w)")
  show ?thesis
  proof (cases res)
    case (Inl e)
    with g show ?thesis
      by (simp add: extract_content_def extract_content_try_def Let_def)
  next
    case (Inr r)
    show ?thesis
    proof (cases "raise_for_status env r")
      case (Some e)
      with g Inr show ?thesis
        by (simp add: extract_content_def extract_content_try_def Let_def)
    next
      case None
      obtain t1 w1 where p:
        "extract_pdf_content env cfg (resp_content r) (emit [Http_get url] w\<lparr>outside := out\<rparr>) = (Inr t1, w1)"
        using extract_pdf_content_returns by blast
      obtain t2 w2 where h:
        "extract_html_content env cfg (resp_text r) (emit [Http_get url] w\<lparr>outside := out\<rparr>) = (Inr t2, w2)"
        using extract_html_content_returns by blast
      from g Inr None p h show ?thesis
        by (simp add: extract_content_def extract_content_try_def Let_def)
    qed
  qed
qed

lemma demo_pdf_content_type: "sublist ''pdf'' ''application/pdf''"
  by code_simp

lemmas demo_defs = demo_env_def demo_world_def demo_response_def config_def

section \<open>ContentExtractor: failures become the empty string\<close>

text \<open>
  C4.  \<open>extract_content\<close> never raises to its caller: for every URL, every world and every
  behaviour of the libraries it returns a string, and when a stage of the extraction fails
  (the request raises, \<open>raise_for_status\<close> raises, the PDF cannot be parsed, the HTML
  parser raises) the string returned is empty.
\<close>

theorem extract_content_never_raises:
  "\<exists>text w'. extract_content env cfg url w = (Inr text, w') \<and>
      (extraction_fails env cfg url w \<longrightarrow> text = [])"
proof -
  obtain t w' where r: "extract_content env cfg url w = (Inr t, w')"
    using extract_content_returns by blast
  have "t = []" if f: "extraction_fails env cfg url w"
  proof -
    have "fst (extract_content env cfg url w) = Inr []"
      using f
      by (auto simp: extraction_fails_def extract_content_cases Let_def
            extract_pdf_content_failure extract_html_content_failure
            split: prod.splits sum.splits option.splits if_splits)
    with r show ?thesis by simp
  qed
  with r show ?thesis by blast
qed

theorem extract_content_never_raises_witness:
  "extraction_fails demo_env config ''https://www.fda.gov/down'' demo_world \<and>
   fst (extract_content demo_env config ''https://www.fda.gov/down'' demo_world) = Inr []"
proof -
  have f: "extraction_fails demo_env config ''https://www.fda.gov/down'' demo_world"
    by (simp add: extraction_fails_def demo_defs)
  from extract_content_never_raises [of demo_env config "''https://www.fda.gov/down''" demo_world] f
  show ?thesis by auto
qed

section \<open>ContentExtractor: the length cap\<close>

text \<open>
  C5.  With a non-negative \<open>max_text_length\<close>, the text returned by the PDF branch, by the
  HTML branch and by \<open>extract_content\<close> as a whole is never longer than the cap, whatever
  the size of the input; when the parser succeeds on a document longer than the cap the
  result is the first \<open>max_text_length\<close> characters of the parsed text, not an error.
\<close>

theorem extracted_text_within_cap:
  assumes "0 \<le> max_text_length cfg"
  shows "(\<exists>t w'. extract_pdf_content env cfg pdf_content w = (Inr t, w') \<and>
            int (length t) \<le> max_text_length cfg \<and>
            (\<forall>doc full. fitz_open env pdf_content = Inr doc \<and> page_loop [] doc = Inr full
               \<longrightarrow> t = take (nat (max_text_length cfg)) full)) \<and>
         (\<exists>t w'. extract_html_content env cfg html w = (Inr t, w') \<and>
            int (length t) \<le> max_text_length cfg \<and>
            (\<forall>soup_text. soup_get_text env html = Inr soup_text
               \<longrightarrow> t = take (nat (max_text_length cfg)) (join_stripped_lines soup_text))) \<and>
         (\<exists>t w'. extract_content env cfg url w = (Inr t, w') \<and>
            int (length t) \<le> max_text_length cfg)"
proof -
  have pdf: "\<exists>t w'. extract_pdf_content env cfg b v = (Inr t, w') \<and>
            int (length t) \<le> max_text_length cfg \<and>
            (\<forall>doc full. fitz_open env b = Inr doc \<and> page_loop [] doc = Inr full
               \<longrightarrow> t = take (nat (max_text_length cfg)) full)" for b v
    using assms
    by (auto simp: extract_pdf_content_cases Let_def py_slice_to_length py_slice_to_take
          split: sum.splits)
  have html: "\<exists>t w'. extract_html_content env cfg h v = (Inr t, w') \<and>
            int (length t) \<le> max_text_length cfg \<and>
            (\<forall>soup_text. soup_get_text env h = Inr soup_text
               \<longrightarrow> t = take (nat (max_text_length cfg)) (join_stripped_lines soup_text))" for h v
    using assms
    by (auto simp: extract_html_content_cases py_slice_to_length py_slice_to_take
          split: sum.splits)
  have "\<exists>t w'. extract_content env cfg url w = (Inr t, w') \<and>
            int (length t) \<le> max_text_length cfg"
  proof -
    obtain res out where g:
      "requests_get env url [(''User-Agent'', ''Mozilla/5.0'')] (request_timeout cfg) (outside w) = (res, out)"
      by (cases "requests_get env url [(''User-Agent'', ''Mozilla/5.0'')] (request_timeout cfg) (outside w)")
    show ?thesis
    proof (cases res)
      case (Inl e)
      with g assms show ?thesis by (simp add: extract_content_cases Let_def)
    next
      case (Inr r)
      show ?thesis
      proof (cases "raise_for_status env r")
        case (Some e)
        with g Inr assms show ?thesis by (simp add: extract_content_cases Let_def)
      next
        case None
        show ?thesis
        proof (cases "pdf_content_type r")
          case True
          with g Inr None pdf [of "resp_content r" "emit [Http_get url] w\<lparr>outside := out\<rparr>"]
          show ?thesis by (auto simp: extract_content_cases Let_def)
        next
          case False
          with g Inr None html [of "resp_text r" "emit [Http_get url] w\<lparr>outside := out\<rparr>"]
          show ?thesis by (auto simp: extract_content_cases Let_def)
        qed
      qed
    qed
  qed
  with pdf html show ?thesis by blast
qed

lemma demo_join_stripped_lines:
  "join_stripped_lines demo_page = ''Drug X approved for indication Y''"
  by code_simp

theorem extracted_text_within_cap_witness:
  "0 \<le> max_text_length small_cap \<and>
   fst (extract_pdf_content demo_env small_cap ''%PDF-1.7'' demo_world) = Inr ''Page o'' \<and>
   fst (extract_html_content demo_env small_cap
          demo_page demo_world) = Inr ''Drug X'' \<and>
   (\<exists>t. fst (extract_content demo_env small_cap ''https://www.fda.gov/news'' demo_world) = Inr t \<and>
        length t \<le> 6)"
proof -
  have c: "0 \<le> max_text_length small_cap"
    by (simp add: small_cap_def config_def)
  have p: "fitz_open demo_env ''%PDF-1.7'' = Inr [Inr ''Page one. '', Inr ''Page two.''] \<and>
           page_loop [] [Inr ''Page one. '', Inr ''Page two.''] = Inr ''Page one. Page two.''"
    by (simp add: demo_env_def)
  have h: "soup_get_text demo_env demo_page
             = Inr demo_page"
    by (simp add: demo_env_def)
  have m: "nat (max_text_length small_cap) = 6"
    by (simp add: small_cap_def config_def)
  from extracted_text_within_cap [OF c, of demo_env "''%PDF-1.7''" demo_world
      demo_page "''https://www.fda.gov/news''"]
  obtain t1 w1 t2 w2 t3 w3 where
    a1: "extract_pdf_content demo_env small_cap ''%PDF-1.7'' demo_world = (Inr t1, w1)" and
    b1: "\<forall>doc full. fitz_open demo_env ''%PDF-1.7'' = Inr doc \<and> page_loop [] doc = Inr full
               \<longrightarrow> t1 = take (nat (max_text_length small_cap)) full" and
    a2: "extract_html_content demo_env small_cap
          demo_page demo_world = (Inr t2, w2)" and
    b2: "\<forall>soup_text. soup_get_text demo_env demo_page = Inr soup_text
               \<longrightarrow> t2 = take (nat (max_text_length small_cap)) (join_stripped_lines soup_text)" and
    a3: "extract_content demo_env small_cap ''https://www.fda.gov/news'' demo_world = (Inr t3, w3)" and
    b3: "int (length t3) \<le> max_text_length small_cap"
    by blast
  from b1 p m have "t1 = ''Page o''" by simp
  moreover from b2 h m have "t2 = ''Drug X''" by (simp add: demo_join_stripped_lines)
  moreover from b3 have "length t3 \<le> 6" by (simp add: small_cap_def config_def)
  ultimately show ?thesis using c a1 a2 a3 by simp
qed

section \<open>ContentExtractor: dispatch on the content type\<close>

lemma extract_pdf_content_trace:
  "\<exists>p logs. trace (snd (extract_pdf_content env cfg b v)) = trace v @ Pdf_open p # logs \<and>
      list_all is_log logs"
  by (simp add: extract_pdf_content_cases Let_def split: sum.split)

lemma extract_html_content_trace:
  "\<exists>logs. trace (snd (extract_html_content env cfg h v)) = trace v @ Html_parse # logs \<and>
      list_all is_log logs"
  by (simp add: extract_html_content_cases split: sum.split)

lemma not_log_mem: "list_all is_log logs \<Longrightarrow> Html_parse \<notin> set logs \<and> Pdf_open p \<notin> set logs"
  by (induction logs) auto

text \<open>
  C9.  After a successful fetch, the PDF branch is taken exactly when the response carries
  a \<open>content-type\<close> header whose value contains \<open>pdf\<close>; when the header is absent, or its
  value does not contain \<open>pdf\<close>, the HTML branch is taken.  The PDF parser is opened only in
  the first case and the HTML parser is called only in the second.
\<close>

theorem content_type_dispatch:
  assumes "requests_get env url [(''User-Agent'', ''Mozilla/5.0'')] (request_timeout cfg) (outside w)
             = (Inr r, out)"
      and "raise_for_status env r = None"
  shows "extract_content env cfg url w =
           (if (\<exists>ct. headers r ''content-type'' = Some ct \<and> sublist ''pdf'' ct)
            then extract_pdf_content env cfg (resp_content r) (emit [Http_get url] w\<lparr>outside := out\<rparr>)
            else extract_html_content env cfg (resp_text r) (emit [Http_get url] w\<lparr>outside := out\<rparr>)) \<and>
         ((\<exists>p. Pdf_open p \<in> set (drop (length (trace w)) (trace (snd (extract_content env cfg url w)))))
            = (\<exists>ct. headers r ''content-type'' = Some ct \<and> sublist ''pdf'' ct)) \<and>
         (Html_parse \<in> set (drop (length (trace w)) (trace (snd (extract_content env cfg url w))))
            = (\<not> (\<exists>ct. headers r ''content-type'' = Some ct \<and> sublist ''pdf'' ct)))"
proof -
  let ?w1 = "emit [Http_get url] w\<lparr>outside := out\<rparr>"
  have ct: "pdf_content_type r = (\<exists>ct. headers r ''content-type'' = Some ct \<and> sublist ''pdf'' ct)"
    by (simp add: pdf_content_type_def dict_get_def split: option.split)
  have eq: "extract_content env cfg url w =
           (if pdf_content_type r
            then extract_pdf_content env cfg (resp_content r) ?w1
            else extract_html_content env cfg (resp_text r) ?w1)"
    using assms by (simp add: extract_content_cases Let_def)
  have tr: "trace ?w1 = trace w @ [Http_get url]" by simp
  show ?thesis
  proof (cases "pdf_content_type r")
    case True
    obtain p logs where
      "trace (snd (extract_pdf_content env cfg (resp_content r) ?w1)) = trace ?w1 @ Pdf_open p # logs"
      and "list_all is_log logs"
      using extract_pdf_content_trace by blast
    with True eq ct tr not_log_mem [of logs] show ?thesis by auto
  next
    case False
    obtain logs where
      "trace (snd (extract_html_content env cfg (resp_text r) ?w1)) = trace ?w1 @ Html_parse # logs"
      and "list_all is_log logs"
      using extract_html_content_trace by blast
    with False eq ct tr not_log_mem [of logs] show ?thesis by auto
  qed
qed

theorem content_type_dispatch_witness:
  "requests_get demo_env ''https://www.fda.gov/news'' [(''User-Agent'', ''Mozilla/5.0'')]
     (request_timeout config) (outside demo_world) = (Inr (demo_response ''https://www.fda.gov/news''), 1) \<and>
   raise_for_status demo_env (demo_response ''https://www.fda.gov/news'') = None \<and>
   headers (demo_response ''https://www.fda.gov/news'') ''content-type'' = None \<and>
   extract_content demo_env config ''https://www.fda.gov/news'' demo_world =
     extract_html_content demo_env config demo_page
       (emit [Http_get ''https://www.fda.gov/news''] demo_world\<lparr>outside := 1\<rparr>) \<and>
   requests_get demo_env ''https://www.fda.gov/label.pdf'' [(''User-Agent'', ''Mozilla/5.0'')]
     (request_timeout config) (outside demo_world) = (Inr (demo_response ''https://www.fda.gov/label.pdf''), 1) \<and>
   raise_for_status demo_env (demo_response ''https://www.fda.gov/label.pdf'') = None \<and>
   headers (demo_response ''https://www.fda.gov/label.pdf'') ''content-type'' = Some ''application/pdf'' \<and>
   extract_content demo_env config ''https://www.fda.gov/label.pdf'' demo_world =
     extract_pdf_content demo_env config ''%PDF-1.7 broken''
       (emit [Http_get ''https://www.fda.gov/label.pdf''] demo_world\<lparr>outside := 1\<rparr>)"
proof -
  have g1: "requests_get demo_env ''https://www.fda.gov/news'' [(''User-Agent'', ''Mozilla/5.0'')]
     (request_timeout config) (outside demo_world) = (Inr (demo_response ''https://www.fda.gov/news''), 1)"
    by (simp add: demo_env_def demo_world_def)
  have s1: "raise_for_status demo_env (demo_response ''https://www.fda.gov/news'') = None"
    by (simp add: demo_env_def demo_response_def)
  have h1: "headers (demo_response ''https://www.fda.gov/news'') ''content-type'' = None"
           "resp_text (demo_response ''https://www.fda.gov/news'') = demo_page"
    by (simp_all add: demo_response_def)
  have g2: "requests_get demo_env ''https://www.fda.gov/label.pdf'' [(''User-Agent'', ''Mozilla/5.0'')]
     (request_timeout config) (outside demo_world) = (Inr (demo_response ''https://www.fda.gov/label.pdf''), 1)"
    by (simp add: demo_env_def demo_world_def)
  have s2: "raise_for_status demo_env (demo_response ''https://www.fda.gov/label.pdf'') = None"
    by (simp add: demo_env_def demo_response_def)
  have h2: "headers (demo_response ''https://www.fda.gov/label.pdf'') ''content-type'' = Some ''application/pdf''"
           "resp_content (demo_response ''https://www.fda.gov/label.pdf'') = ''%PDF-1.7 broken''"
    by (simp_all add: demo_response_def)
  from content_type_dispatch [OF g1 s1] h1
  have e1: "extract_content demo_env config ''https://www.fda.gov/news'' demo_world =
     extract_html_content demo_env config demo_page
       (emit [Http_get ''https://www.fda.gov/news''] demo_world\<lparr>outside := 1\<rparr>)"
    by simp
  from content_type_dispatch [OF g2 s2] h2 demo_pdf_content_type
  have e2: "extract_content demo_env config ''https://www.fda.gov/label.pdf'' demo_world =
     extract_pdf_content demo_env config ''%PDF-1.7 broken''
       (emit [Http_get ''https://www.fda.gov/label.pdf''] demo_world\<lparr>outside := 1\<rparr>)"
    by simp
  from g1 s1 h1 e1 g2 s2 h2 e2 show ?thesis by simp
qed

section \<open>DrugApprovalTracker: the loop over the hits\<close>

lemma track_loop_step:
  assumes "extract_content env cfg (dict_get res ''link'' []) w = (Inr content, w1)"
  shows "track_loop env cfg ((i, res) # rest) processed w =
           (if content = [] then track_loop env cfg rest processed w1
            else case analyze_content env cfg content (dict_get res ''link'' []) w1 of
                   (Inl e, w2) \<Rightarrow> (Inl e, w2)
                 | (Inr analysis, w2) \<Rightarrow>
                     track_loop env cfg rest (processed @ [add_provenance i res analysis]) w2)"
  using assms by simp

lemma track_loop_processed:
  "\<exists>out w'. track_loop env cfg hits [] w = (Inr out, w') \<and>
            track_loop env cfg hits processed w = (Inr (processed @ out), w')"
proof (induction hits arbitrary: processed w)
  case Nil
  show ?case by simp
next
  case (Cons h hits)
  obtain i res where h: "h = (i, res)" by (cases h)
  obtain content w1 where ex: "extract_content env cfg (dict_get res ''link'' []) w = (Inr content, w1)"
    using extract_content_returns by blast
  show ?case
  proof (cases "content = []")
    case True
    with Cons.IH [of w1 processed] show ?thesis
      unfolding h track_loop_step [OF ex] by simp
  next
    case False
    obtain analysis w2 where
      an: "analyze_content env cfg content (dict_get res ''link'' []) w1 = (Inr analysis, w2)"
      using analyze_content_returns by blast
    obtain out w' where
      o: "track_loop env cfg hits [] w2 = (Inr out, w')"
      using track_loop_returns by blast
    from Cons.IH [of w2 "[add_provenance i res analysis]"] o
    have a: "track_loop env cfg hits [add_provenance i res analysis] w2
               = (Inr ([add_provenance i res analysis] @ out), w')" by simp
    from Cons.IH [of w2 "processed @ [add_provenance i res analysis]"] o
    have b: "track_loop env cfg hits (processed @ [add_provenance i res analysis]) w2
               = (Inr ((processed @ [add_provenance i res analysis]) @ out), w')" by simp
    from False an a b show ?thesis
      unfolding h track_loop_step [OF ex] by simp
  qed
qed

lemma track_loop_append:
  assumes "track_loop env cfg xs processed w = (Inr acc1, w1)"
  shows "track_loop env cfg (xs @ ys) processed w = track_loop env cfg ys acc1 w1"
  using assms
proof (induction xs arbitrary: processed w)
  case Nil
  then show ?case by simp
next
  case (Cons h xs)
  obtain i res where h: "h = (i, res)" by (cases h)
  obtain content w0 where ex: "extract_content env cfg (dict_get res ''link'' []) w = (Inr content, w0)"
    using extract_content_returns by blast
  show ?case
  proof (cases "content = []")
    case True
    with Cons.prems have "track_loop env cfg xs processed w0 = (Inr acc1, w1)"
      unfolding h track_loop_step [OF ex] by simp
    from Cons.IH [OF this] True show ?thesis
      unfolding h append_Cons track_loop_step [OF ex] by simp
  next
    case False
    obtain analysis w2 where
      an: "analyze_content env cfg content (dict_get res ''link'' []) w0 = (Inr analysis, w2)"
      using analyze_content_returns by blast
    with False Cons.prems
    have "track_loop env cfg xs (processed @ [add_provenance i res analysis]) w2 = (Inr acc1, w1)"
      unfolding h track_loop_step [OF ex] by simp
    from Cons.IH [OF this] False an show ?thesis
      unfolding h append_Cons track_loop_step [OF ex] by simp
  qed
qed

lemma enumerate_split:
  "List.enumerate 0 (pre @ res # post) =
     List.enumerate 0 pre @ (length pre, res) # List.enumerate (Suc (length pre)) post"
  by (simp add: enumerate_append_eq)


lemma demo_search:
  "search_drug_approvals demo_env config ''key'' ''fda.gov'' ''m'' 10 demo_world
     = (Inr demo_hits, demo_world_searched)"
  by (simp add: search_drug_approvals_def demo_env_def demo_world_def demo_world_searched_def
        config_def emit_def time_sleep_def Let_def)


lemma demo_strip_answer: "py_strip (strip_fences demo_answer) = demo_json"
  by code_simp

lemma demo_extract_down:
  "extract_content demo_env config ''https://www.fda.gov/down'' w =
     (Inr [], emit [Http_get ''https://www.fda.gov/down'',
                    Log_error ''Content extraction failed for https://www.fda.gov/down: ConnectionError'']
                (w\<lparr>outside := Suc (outside w)\<rparr>))"
  by (simp add: extract_content_cases demo_env_def Let_def emit_def)

lemma demo_extract_page:
  "url \<noteq> ''https://www.fda.gov/down'' \<Longrightarrow> url \<noteq> ''https://www.fda.gov/label.pdf'' \<Longrightarrow>
   url \<noteq> ''https://www.fda.gov/gone'' \<Longrightarrow>
   extract_content demo_env config url w =
     (Inr ''Drug X approved for indication Y'',
      emit [Http_get url, Html_parse] (w\<lparr>outside := Suc (outside w)\<rparr>))"
  by (simp add: extract_content_cases extract_html_content_cases demo_env_def demo_response_def
        pdf_content_type_def dict_get_def demo_join_stripped_lines config_def py_slice_to_def
        Let_def emit_def)

lemma demo_extract_pdf:
  "extract_content demo_env config ''https://www.fda.gov/label.pdf'' w =
     (Inr [], emit [Http_get ''https://www.fda.gov/label.pdf'', Pdf_open ''/tmp/tmp.pdf'',
                    Log_error ''PDF parse failed: cannot open broken document'']
                (w\<lparr>outside := Suc (outside w), tmp_files := insert ''/tmp/tmp.pdf'' (tmp_files w)\<rparr>))"
  by (simp add: extract_content_cases extract_pdf_content_cases demo_env_def demo_response_def
        pdf_content_type_def dict_get_def demo_pdf_content_type Let_def emit_def)

lemma demo_analyze:
  "analyze_content demo_env config content url w =
     (Inr [''drug_name'' \<mapsto> PStr ''Drug X'', ''source_url'' \<mapsto> PStr ''https://example.org/other'',
           ''extraction_timestamp'' \<mapsto> PStr ''2024-05-01T12:00:00''],
      emit [Generate_call (build_prompt content url), Sleep (gemini_delay config)]
        (w\<lparr>outside := Suc (outside w)\<rparr>))"
  by (simp add: analyze_content_def analyze_content_try_def demo_env_def demo_strip_answer
        config_def time_sleep_def Let_def emit_def)

lemma demo_links:
  "dict_get demo_hit_down ''link'' [] = ''https://www.fda.gov/down''"
  "dict_get demo_hit_news ''link'' [] = ''https://www.fda.gov/news''"
  "dict_get demo_hit_pdf ''link'' [] = ''https://www.fda.gov/label.pdf''"
  "dict_get demo_hit_press ''link'' [] = ''https://www.fda.gov/press''"
  by (simp_all add: dict_get_def demo_hit_down_def demo_hit_news_def demo_hit_pdf_def
        demo_hit_press_def)

lemma demo_run:
  "fst (track_approvals demo_env config ''key'' ''fda.gov'' ''m'' 10 demo_world) =
     Inr [add_provenance 1 demo_hit_news demo_record, add_provenance 3 demo_hit_press demo_record]"
  by (simp add: track_approvals_def demo_search demo_hits_def demo_links demo_extract_down
        demo_extract_page demo_extract_pdf demo_analyze demo_record_def Let_def numeral_3_eq_3)


text \<open>
  C1.  In a run whose search returned the hits \<open>pre @ res # post\<close>, the run returns, and the
  hit \<open>res\<close> contributes to the output list as follows.  When \<open>extract_content\<close> returns the
  empty string for its URL, it contributes nothing: the output is the records of the hits
  before it followed by the records of the hits after it, and the later hits are processed
  from the world the extraction left, so the analyzer was not called for it.  When the
  extracted text is not empty, it contributes exactly one record, the result of
  \<open>analyze_content\<close> (real or fallback) with the provenance fields added, between the
  records of the earlier and of the later hits.
\<close>

theorem one_record_per_extracted_text:
  assumes "search_drug_approvals env cfg api_key agency_domain date_range num_results w
             = (Inr (pre @ res # post), ws)"
  shows "\<exists>before w1 content w2.
           track_loop env cfg (List.enumerate 0 pre) [] ws = (Inr before, w1) \<and>
           extract_content env cfg (dict_get res ''link'' []) w1 = (Inr content, w2) \<and>
           (if content = []
            then (\<exists>after w4.
                    track_loop env cfg (List.enumerate (Suc (length pre)) post) [] w2 = (Inr after, w4) \<and>
                    track_approvals env cfg api_key agency_domain date_range num_results w
                      = (Inr (before @ after), w4))
            else (\<exists>analysis w3 after w4.
                    analyze_content env cfg content (dict_get res ''link'' []) w2 = (Inr analysis, w3) \<and>
                    track_loop env cfg (List.enumerate (Suc (length pre)) post) [] w3 = (Inr after, w4) \<and>
                    track_approvals env cfg api_key agency_domain date_range num_results w
                      = (Inr (before @ [add_provenance (length pre) res analysis] @ after), w4)))"
proof -
  let ?url = "dict_get res ''link'' []"
  let ?post = "List.enumerate (Suc (length pre)) post"
  obtain before w1 where b: "track_loop env cfg (List.enumerate 0 pre) [] ws = (Inr before, w1)"
    using track_loop_returns by blast
  obtain content w2 where ex: "extract_content env cfg ?url w1 = (Inr content, w2)"
    using extract_content_returns by blast
  have run: "track_approvals env cfg api_key agency_domain date_range num_results w
               = track_loop env cfg ((length pre, res) # ?post) before w1"
    using assms track_loop_append [OF b] by (simp add: track_approvals_def enumerate_split)
  show ?thesis
  proof (cases "content = []")
    case True
    obtain after w4 where
      "track_loop env cfg ?post [] w2 = (Inr after, w4)"
      "track_loop env cfg ?post before w2 = (Inr (before @ after), w4)"
      using track_loop_processed [of env cfg ?post w2 before] by blast
    with True b ex run show ?thesis
      unfolding track_loop_step [OF ex] by simp
  next
    case False
    obtain analysis w3 where an: "analyze_content env cfg content ?url w2 = (Inr analysis, w3)"
      using analyze_content_returns by blast
    obtain after w4 where
      "track_loop env cfg ?post [] w3 = (Inr after, w4)"
      "track_loop env cfg ?post (before @ [add_provenance (length pre) res analysis]) w3
         = (Inr ((before @ [add_provenance (length pre) res analysis]) @ after), w4)"
      using track_loop_processed [of env cfg ?post w3 "before @ [add_provenance (length pre) res analysis]"]
      by blast
    with False b ex an run show ?thesis
      unfolding track_loop_step [OF ex] by simp
  qed
qed

theorem one_record_per_extracted_text_witness:
  "search_drug_approvals demo_env config ''key'' ''fda.gov'' ''m'' 10 demo_world
     = (Inr ([demo_hit_down] @ demo_hit_news # [demo_hit_pdf, demo_hit_press]), demo_world_searched) \<and>
   (\<exists>before w1 content w2.
      track_loop demo_env config (List.enumerate 0 [demo_hit_down]) [] demo_world_searched = (Inr before, w1) \<and>
      extract_content demo_env config (dict_get demo_hit_news ''link'' []) w1 = (Inr content, w2) \<and>
      (if content = []
       then (\<exists>after w4.
               track_loop demo_env config
                 (List.enumerate (Suc (length [demo_hit_down])) [demo_hit_pdf, demo_hit_press]) [] w2
                 = (Inr after, w4) \<and>
               track_approvals demo_env config ''key'' ''fda.gov'' ''m'' 10 demo_world
                 = (Inr (before @ after), w4))
       else (\<exists>analysis w3 after w4.
               analyze_content demo_env config content (dict_get demo_hit_news ''link'' []) w2
                 = (Inr analysis, w3) \<and>
               track_loop demo_env config
                 (List.enumerate (Suc (length [demo_hit_down])) [demo_hit_pdf, demo_hit_press]) [] w3
                 = (Inr after, w4) \<and>
               track_approvals demo_env config ''key'' ''fda.gov'' ''m'' 10 demo_world
                 = (Inr (before @ [add_provenance (length [demo_hit_down]) demo_hit_news analysis] @ after),
                    w4))))"
proof -
  have h: "search_drug_approvals demo_env config ''key'' ''fda.gov'' ''m'' 10 demo_world
     = (Inr ([demo_hit_down] @ demo_hit_news # [demo_hit_pdf, demo_hit_press]), demo_world_searched)"
    using demo_search by (simp add: demo_hits_def)
  from h one_record_per_extracted_text [OF h] show ?thesis by (rule conjI)
qed


section \<open>DrugApprovalTracker: provenance and ranks\<close>

lemma provenance_add_provenance:
  "provenance (add_provenance i res analysis) = hit_provenance (i, res)"
  by (simp add: provenance_def add_provenance_def hit_provenance_def)

lemma track_loop_provenance:
  "\<exists>out w' kept. track_loop env cfg hits [] w = (Inr out, w') \<and> subseq kept hits \<and>
      map provenance out = map hit_provenance kept"
proof (induction hits arbitrary: w)
  case Nil
  show ?case by simp
next
  case (Cons h hits)
  obtain i res where h: "h = (i, res)" by (cases h)
  obtain content w1 where ex: "extract_content env cfg (dict_get res ''link'' []) w = (Inr content, w1)"
    using extract_content_returns by blast
  show ?case
  proof (cases "content = []")
    case True
    from Cons.IH [of w1] obtain out w' kept where
      "track_loop env cfg hits [] w1 = (Inr out, w')" "subseq kept hits"
      "map provenance out = map hit_provenance kept" by blast
    with True have
      "track_loop env cfg (h # hits) [] w = (Inr out, w') \<and> subseq kept (h # hits) \<and>
         map provenance out = map hit_provenance kept"
      unfolding h track_loop_step [OF ex] by (simp add: list_emb_Cons)
    then show ?thesis by blast
  next
    case False
    obtain analysis w2 where
      an: "analyze_content env cfg content (dict_get res ''link'' []) w1 = (Inr analysis, w2)"
      using analyze_content_returns by blast
    from Cons.IH [of w2] obtain out w' kept where
      o: "track_loop env cfg hits [] w2 = (Inr out, w')" and k: "subseq kept hits"
      and m: "map provenance out = map hit_provenance kept" by blast
    from track_loop_processed [of env cfg hits w2 "[add_provenance i res analysis]"] o
    have "track_loop env cfg hits ([] @ [add_provenance i res analysis]) w2
            = (Inr (add_provenance i res analysis # out), w')" by simp
    with False an k m have
      "track_loop env cfg (h # hits) [] w = (Inr (add_provenance i res analysis # out), w') \<and>
         subseq (h # kept) (h # hits) \<and>
         map provenance (add_provenance i res analysis # out) = map hit_provenance (h # kept)"
      unfolding h track_loop_step [OF ex] by (simp add: provenance_add_provenance)
    then show ?thesis by blast
  qed
qed

lemma subseq_set: "subseq xs ys \<Longrightarrow> set xs \<subseteq> set ys"
  by (induction rule: list_emb.induct) auto

lemma sorted_wrt_subseq:
  assumes "subseq xs ys" and "sorted_wrt P ys"
  shows "sorted_wrt P xs"
  using assms
proof (induction rule: list_emb.induct)
  case (list_emb_Nil ys)
  show ?case by simp
next
  case (list_emb_Cons xs ys y)
  then show ?case by simp
next
  case (list_emb_Cons2 x y xs ys)
  from list_emb_Cons2.hyps(2) have "set xs \<subseteq> set ys" by (rule subseq_set)
  with list_emb_Cons2 show ?case by auto
qed

lemma subseq_enumerate:
  assumes "subseq kept (List.enumerate 0 xs)"
  shows "sorted_wrt (<) (map fst kept) \<and>
         list_all (\<lambda>p. fst p < length xs \<and> xs ! fst p = snd p) kept"
proof -
  have "subseq (map fst kept) (map fst (List.enumerate 0 xs))"
    using assms by (rule subseq_map)
  then have "subseq (map fst kept) [0..<length xs]" by simp
  moreover have "sorted_wrt (<) [0..<length xs]" by simp
  ultimately have s: "sorted_wrt (<) (map fst kept)"
    by (rule sorted_wrt_subseq)
  have sub: "set kept \<subseteq> set (List.enumerate 0 xs)"
    using assms by (rule subseq_set)
  have "fst p < length xs \<and> xs ! fst p = snd p" if "p \<in> set kept" for p
  proof -
    from that sub have "p \<in> set (List.enumerate 0 xs)" by blast
    then show ?thesis by (simp add: in_set_enumerate_eq)
  qed
  then have "list_all (\<lambda>p. fst p < length xs \<and> xs ! fst p = snd p) kept"
    by (simp add: list_all_iff)
  with s show ?thesis by simp
qed

text \<open>
  C10.  The records of the output are, in order, the records of a subsequence \<open>kept\<close> of the
  enumerated search results: each record carries as \<open>search_position\<close> one plus the index
  of its hit in the full result list (skipped hits are counted), together with the title
  and the snippet of that hit, and the positions are strictly increasing.
\<close>

theorem search_position_is_original_rank:
  assumes "search_drug_approvals env cfg api_key agency_domain date_range num_results w
             = (Inr results, ws)"
  shows "\<exists>out w' kept.
           track_approvals env cfg api_key agency_domain date_range num_results w = (Inr out, w') \<and>
           subseq kept (List.enumerate 0 results) \<and>
           map provenance out = map hit_provenance kept \<and>
           sorted_wrt (<) (map fst kept) \<and>
           list_all (\<lambda>p. fst p < length results \<and> results ! fst p = snd p) kept"
proof -
  obtain out w' kept where
    "track_loop env cfg (List.enumerate 0 results) [] ws = (Inr out, w')"
    "subseq kept (List.enumerate 0 results)"
    "map provenance out = map hit_provenance kept"
    using track_loop_provenance by blast
  with assms subseq_enumerate [of kept results] show ?thesis
    by (auto simp: track_approvals_def)
qed

theorem search_position_is_original_rank_witness:
  "search_drug_approvals demo_env config ''key'' ''fda.gov'' ''m'' 10 demo_world
     = (Inr demo_hits, demo_world_searched) \<and>
   (\<exists>out w' kept.
      track_approvals demo_env config ''key'' ''fda.gov'' ''m'' 10 demo_world = (Inr out, w') \<and>
      subseq kept (List.enumerate 0 demo_hits) \<and>
      map provenance out = map hit_provenance kept \<and>
      sorted_wrt (<) (map fst kept) \<and>
      list_all (\<lambda>p. fst p < length demo_hits \<and> demo_hits ! fst p = snd p) kept) \<and>
   map provenance (projr (fst (track_approvals demo_env config ''key'' ''fda.gov'' ''m'' 10 demo_world)))
     = [(Some (PInt 2), Some (PStr ''Second''), Some (PStr ''two'')),
        (Some (PInt 4), Some (PStr ''Fourth''), Some (PStr ''four''))]"
proof -
  have "map provenance
          (projr (fst (track_approvals demo_env config ''key'' ''fda.gov'' ''m'' 10 demo_world)))
     = [(Some (PInt 2), Some (PStr ''Second''), Some (PStr ''two'')),
        (Some (PInt 4), Some (PStr ''Fourth''), Some (PStr ''four''))]"
    by (simp add: demo_run provenance_add_provenance hit_provenance_def dict_get_def
          demo_hit_news_def demo_hit_press_def)
  with demo_search search_position_is_original_rank [OF demo_search] show ?thesis
    by (intro conjI)
qed

section \<open>AIAnalyzer: the fallback record\<close>

lemma analyze_content_cases:
  "analyze_content env cfg content url w =
     (let prompt = build_prompt content url;
          w0 = emit [Generate_call prompt] w
      in case generate_content env prompt (outside w) of
           (Inl e, out) \<Rightarrow>
             (let w2 = emit [Log_error (''AI analysis failed: '' @ str_exn e)] (w0\<lparr>outside := out\<rparr>)
              in (Inr (fallback_record url (now_isoformat env (outside w2))), w2))
         | (Inr response, out) \<Rightarrow>
             (case time_sleep env (gemini_delay cfg) (w0\<lparr>outside := out\<rparr>) of
                Inl e \<Rightarrow>
                  (let w2 = emit [Log_error (''AI analysis failed: '' @ str_exn e)]
                              (w0\<lparr>outside := out\<rparr>)
                   in (Inr (fallback_record url (now_isoformat env (outside w2))), w2))
              | Inr w1 \<Rightarrow>
                  (let parsed = (case response of
                                   Inl e \<Rightarrow> Inl e
                                 | Inr response_text \<Rightarrow>
                                     (case json_loads env (strip_fences response_text) of
                                        Inl e \<Rightarrow> Inl e
                                      | Inr result \<Rightarrow>
                                          set_item result ''extraction_timestamp''
                                            (PStr (now_isoformat env (outside w1)))))
                   in case parsed of
                        Inl e \<Rightarrow>
                          (let w2 = emit [Log_error (''AI analysis failed: '' @ str_exn e)] w1
                           in (Inr (fallback_record url (now_isoformat env (outside w2))), w2))
                      | Inr result \<Rightarrow> (Inr result, w1))))"
  by (simp add: analyze_content_def analyze_content_try_def Let_def
        split: prod.split sum.split)

lemma generation_fails_fallback:
  assumes "generation_fails env (build_prompt content url) (outside w)"
  shows "\<exists>w'. analyze_content env cfg content url w =
           (Inr (fallback_record url (now_isoformat env (outside w'))), w')"
proof -
  obtain res out where g: "generate_content env (build_prompt content url) (outside w) = (res, out)"
    by (cases "generate_content env (build_prompt content url) (outside w)")
  let ?w0 = "emit [Generate_call (build_prompt content url)] w\<lparr>outside := out\<rparr>"
  show ?thesis
  proof (cases res)
    case (Inl e)
    with g show ?thesis by (simp add: analyze_content_cases Let_def)
  next
    case (Inr response)
    show ?thesis
    proof (cases "time_sleep env (gemini_delay cfg) ?w0")
      case (Inl e)
      with g Inr show ?thesis by (simp add: analyze_content_cases Let_def)
    next
      case slept: (Inr w1)
      show ?thesis
      proof (cases response)
        case (Inl e)
        with g Inr slept show ?thesis by (simp add: analyze_content_cases Let_def)
      next
        case r: (Inr response_text)
        with assms g Inr obtain e where "json_loads env (strip_fences response_text) = Inl e"
          by (cases "json_loads env (strip_fences response_text)") (simp_all add: generation_fails_def)
        with g Inr slept r show ?thesis by (simp add: analyze_content_cases Let_def)
      qed
    qed
  qed
qed

text \<open>
  C2 (as amended).  When the generative call raises, its answer has no text, or the text
  left after stripping the code fences does not parse as JSON, \<open>analyze_content\<close> returns
  the fallback record: \<open>confidence_score\<close> is \<open>0.0\<close>, \<open>drug_name\<close> is
  \<open>"Analysis failed"\<close>, \<open>source_url\<close> is the URL passed in, \<open>extraction_timestamp\<close> is the
  current time, and the eight remaining fields are \<open>"Not specified"\<close>.
\<close>

theorem fallback_record_fields:
  assumes "generation_fails env (build_prompt content url) (outside w)"
  shows "\<exists>r w'. analyze_content env cfg content url w = (Inr r, w') \<and>
           r ''confidence_score'' = Some (PFloat 0.0) \<and>
           r ''drug_name'' = Some (PStr ''Analysis failed'') \<and>
           map r [''sponsor_company'', ''approval_date'', ''indication'', ''drug_type'',
                  ''regulatory_action'', ''approval_status'', ''therapeutic_area'',
                  ''source_agency'']
             = replicate 8 (Some (PStr ''Not specified'')) \<and>
           r ''source_url'' = Some (PStr url) \<and>
           r ''extraction_timestamp'' = Some (PStr (now_isoformat env (outside w'))) \<and>
           r = fallback_record url (now_isoformat env (outside w'))"
proof -
  from generation_fails_fallback [OF assms] obtain w' where
    a: "analyze_content env cfg content url w =
          (Inr (fallback_record url (now_isoformat env (outside w'))), w')" by blast
  let ?r = "fallback_record url (now_isoformat env (outside w'))"
  have "?r ''confidence_score'' = Some (PFloat 0.0)"
       "?r ''drug_name'' = Some (PStr ''Analysis failed'')"
       "map ?r [''sponsor_company'', ''approval_date'', ''indication'', ''drug_type'',
                  ''regulatory_action'', ''approval_status'', ''therapeutic_area'',
                  ''source_agency'']
             = replicate 8 (Some (PStr ''Not specified''))"
       "?r ''source_url'' = Some (PStr url)"
       "?r ''extraction_timestamp'' = Some (PStr (now_isoformat env (outside w')))"
    by (simp_all add: fallback_record_def eval_nat_numeral)
  with a show ?thesis by blast
qed

lemma demo_model_down_fails:
  "generation_fails demo_env_model_down (build_prompt content url) out"
  by (simp add: generation_fails_def demo_env_model_down_def)

lemma demo_strip_prose:
  "py_strip (strip_fences ''Sorry, I cannot read this document.'') \<noteq> demo_json"
  by code_simp

lemma demo_model_prose_fails:
  "generation_fails demo_env_model_prose (build_prompt content url) out"
  by (simp add: generation_fails_def demo_env_model_prose_def demo_env_def demo_strip_prose)

theorem fallback_drug_name_counterexample:
  "generation_fails demo_env_model_down
     (build_prompt ''Drug X approved for indication Y'' ''https://www.fda.gov/news'')
     (outside demo_world) \<and>
   projr (fst (analyze_content demo_env_model_down config ''Drug X approved for indication Y''
                 ''https://www.fda.gov/news'' demo_world)) ''drug_name''
     = Some (PStr ''Analysis failed'') \<and>
   projr (fst (analyze_content demo_env_model_down config ''Drug X approved for indication Y''
                 ''https://www.fda.gov/news'' demo_world)) ''drug_name''
     \<noteq> Some (PStr ''Not specified'')"
proof -
  from generation_fails_fallback [OF demo_model_down_fails] obtain w' where
    "analyze_content demo_env_model_down config ''Drug X approved for indication Y''
       ''https://www.fda.gov/news'' demo_world
     = (Inr (fallback_record ''https://www.fda.gov/news''
               (now_isoformat demo_env_model_down (outside w'))), w')"
    by blast
  then show ?thesis
    using demo_model_down_fails by (simp add: fallback_record_def)
qed

theorem fallback_record_fields_witness:
  "generation_fails demo_env_model_down
     (build_prompt ''Drug X approved for indication Y'' ''https://www.fda.gov/news'')
     (outside demo_world) \<and>
   (\<exists>r w'. analyze_content demo_env_model_down config ''Drug X approved for indication Y''
              ''https://www.fda.gov/news'' demo_world = (Inr r, w') \<and>
      r ''confidence_score'' = Some (PFloat 0.0) \<and>
      r ''drug_name'' = Some (PStr ''Analysis failed'') \<and>
      r ''sponsor_company'' = Some (PStr ''Not specified'') \<and>
      r ''source_url'' = Some (PStr ''https://www.fda.gov/news'') \<and>
      r ''extraction_timestamp'' = Some (PStr ''2024-05-01T12:00:00'')) \<and>
   generation_fails demo_env_model_prose
     (build_prompt ''Drug X approved for indication Y'' ''https://www.fda.gov/news'')
     (outside demo_world) \<and>
   (\<exists>r w'. analyze_content demo_env_model_prose config ''Drug X approved for indication Y''
              ''https://www.fda.gov/news'' demo_world = (Inr r, w') \<and>
      r ''confidence_score'' = Some (PFloat 0.0) \<and>
      r ''drug_name'' = Some (PStr ''Analysis failed'') \<and>
      r ''source_url'' = Some (PStr ''https://www.fda.gov/news''))"
proof -
  have t1: "now_isoformat demo_env_model_down out = ''2024-05-01T12:00:00''" for out
    by (simp add: demo_env_model_down_def demo_env_def)
  from fallback_record_fields [where env = demo_env_model_down and cfg = config and w = demo_world
      and content = "''Drug X approved for indication Y''" and url = "''https://www.fda.gov/news''",
      OF demo_model_down_fails]
  have a: "\<exists>r w'. analyze_content demo_env_model_down config ''Drug X approved for indication Y''
              ''https://www.fda.gov/news'' demo_world = (Inr r, w') \<and>
      r ''confidence_score'' = Some (PFloat 0.0) \<and>
      r ''drug_name'' = Some (PStr ''Analysis failed'') \<and>
      r ''sponsor_company'' = Some (PStr ''Not specified'') \<and>
      r ''source_url'' = Some (PStr ''https://www.fda.gov/news'') \<and>
      r ''extraction_timestamp'' = Some (PStr ''2024-05-01T12:00:00'')"
    by (elim exE conjE) (simp add: t1 fallback_record_def)
  from fallback_record_fields [where env = demo_env_model_prose and cfg = config and w = demo_world
      and content = "''Drug X approved for indication Y''" and url = "''https://www.fda.gov/news''",
      OF demo_model_prose_fails]
  have b: "\<exists>r w'. analyze_content demo_env_model_prose config ''Drug X approved for indication Y''
              ''https://www.fda.gov/news'' demo_world = (Inr r, w') \<and>
      r ''confidence_score'' = Some (PFloat 0.0) \<and>
      r ''drug_name'' = Some (PStr ''Analysis failed'') \<and>
      r ''source_url'' = Some (PStr ''https://www.fda.gov/news'')"
    by (elim exE conjE) simp
  from a b demo_model_down_fails demo_model_prose_fails show ?thesis by (intro conjI)
qed

section \<open>Pacing delays\<close>

text \<open>
  C8.  When the search call raises, the trace of \<open>search_drug_approvals\<close> is the log line,
  the call and the error line: no pause follows the call.  When the generative call
  raises, the trace of \<open>analyze_content\<close> is the call and the error line, again with no
  pause.  The pause is waited when the call returns: after the search call that returns
  its hits, and after a generative call whose answer then fails to parse, a failure of
  the same \<open>try\<close> block that does wait \<open>gemini_delay\<close>.
\<close>

theorem pacing_delay_skipped_when_call_raises:
  "fst (get_dict demo_env_search_down (search_params ''key'' ''fda.gov'' ''m'' 10) (outside demo_world))
     = Inl (Exception ''connection refused'') \<and>
   trace (snd (search_drug_approvals demo_env_search_down config ''key'' ''fda.gov'' ''m'' 10 demo_world))
     = [Log_info (''Searching: '' @ build_query ''fda.gov''),
        Search_call (search_params ''key'' ''fda.gov'' ''m'' 10),
        Log_error ''Search failed: connection refused''] \<and>
   fst (generate_content demo_env_model_down
          (build_prompt ''Drug X approved for indication Y'' ''https://www.fda.gov/news'')
          (outside demo_world))
     = Inl (Exception ''429 quota exceeded'') \<and>
   trace (snd (analyze_content demo_env_model_down config ''Drug X approved for indication Y''
                 ''https://www.fda.gov/news'' demo_world))
     = [Generate_call (build_prompt ''Drug X approved for indication Y'' ''https://www.fda.gov/news''),
        Log_error ''AI analysis failed: 429 quota exceeded''] \<and>
   trace (snd (search_drug_approvals demo_env config ''key'' ''fda.gov'' ''m'' 10 demo_world))
     = [Log_info (''Searching: '' @ build_query ''fda.gov''),
        Search_call (search_params ''key'' ''fda.gov'' ''m'' 10),
        Sleep (serpapi_delay config)] \<and>
   trace (snd (analyze_content demo_env_model_prose config ''Drug X approved for indication Y''
                 ''https://www.fda.gov/news'' demo_world))
     = [Generate_call (build_prompt ''Drug X approved for indication Y'' ''https://www.fda.gov/news''),
        Sleep (gemini_delay config),
        Log_error ''AI analysis failed: JSONDecodeError'']"
proof -
  have search_down:
    "trace (snd (search_drug_approvals demo_env_search_down config ''key'' ''fda.gov'' ''m'' 10
                   demo_world))
     = [Log_info (''Searching: '' @ build_query ''fda.gov''),
        Search_call (search_params ''key'' ''fda.gov'' ''m'' 10),
        Log_error ''Search failed: connection refused'']"
    by (simp add: search_drug_approvals_def demo_env_search_down_def demo_world_def Let_def emit_def)
  have model_down:
    "trace (snd (analyze_content demo_env_model_down config ''Drug X approved for indication Y''
                   ''https://www.fda.gov/news'' demo_world))
     = [Generate_call (build_prompt ''Drug X approved for indication Y'' ''https://www.fda.gov/news''),
        Log_error ''AI analysis failed: 429 quota exceeded'']"
    by (simp add: analyze_content_cases demo_env_model_down_def demo_world_def Let_def emit_def)
  have search_up:
    "trace (snd (search_drug_approvals demo_env config ''key'' ''fda.gov'' ''m'' 10 demo_world))
     = [Log_info (''Searching: '' @ build_query ''fda.gov''),
        Search_call (search_params ''key'' ''fda.gov'' ''m'' 10),
        Sleep (serpapi_delay config)]"
    by (simp add: demo_search demo_world_searched_def)
  have model_prose:
    "trace (snd (analyze_content demo_env_model_prose config ''Drug X approved for indication Y''
                   ''https://www.fda.gov/news'' demo_world))
     = [Generate_call (build_prompt ''Drug X approved for indication Y'' ''https://www.fda.gov/news''),
        Sleep (gemini_delay config),
        Log_error ''AI analysis failed: JSONDecodeError'']"
    by (simp add: analyze_content_cases demo_env_model_prose_def demo_env_def demo_world_def
          demo_strip_prose config_def time_sleep_def Let_def emit_def)
  have "fst (get_dict demo_env_search_down (search_params ''key'' ''fda.gov'' ''m'' 10)
               (outside demo_world)) = Inl (Exception ''connection refused'')"
    by (simp add: demo_env_search_down_def)
  moreover have "fst (generate_content demo_env_model_down
          (build_prompt ''Drug X approved for indication Y'' ''https://www.fda.gov/news'')
          (outside demo_world)) = Inl (Exception ''429 quota exceeded'')"
    by (simp add: demo_env_model_down_def)
  ultimately show ?thesis
    using search_down model_down search_up model_prose by (intro conjI)
qed

section \<open>Behaviour on a model answer that departs from the prompt\<close>

text \<open>
  C3.  The demo model answers with a JSON object whose \<open>source_url\<close> is not the URL of the
  hit.  The success path of \<open>analyze_content\<close> adds \<open>extraction_timestamp\<close> only, so the
  records of the run carry the model's \<open>source_url\<close> and not the link of their hits.
\<close>

theorem source_url_left_to_the_model:
  "dict_get demo_hit_news ''link'' [] = ''https://www.fda.gov/news'' \<and>
   projr (fst (analyze_content demo_env config ''Drug X approved for indication Y''
                 ''https://www.fda.gov/news'' demo_world)) ''source_url''
     = Some (PStr ''https://example.org/other'') \<and>
   map (\<lambda>r. r ''source_url'')
     (projr (fst (track_approvals demo_env config ''key'' ''fda.gov'' ''m'' 10 demo_world)))
     = [Some (PStr ''https://example.org/other''), Some (PStr ''https://example.org/other'')]"
  by (simp add: demo_links demo_analyze demo_run add_provenance_def demo_record_def)

text \<open>
  C6.  The same answer has two of the required keys.  The record returned on the success
  path has exactly the keys of the answer and \<open>extraction_timestamp\<close>; \<open>sponsor_company\<close>,
  \<open>confidence_score\<close> and seven more required keys are absent.
\<close>

theorem model_record_lacks_required_keys:
  "dom (projr (fst (analyze_content demo_env config ''Drug X approved for indication Y''
                      ''https://www.fda.gov/news'' demo_world)))
     = {''extraction_timestamp'', ''source_url'', ''drug_name''} \<and>
   projr (fst (analyze_content demo_env config ''Drug X approved for indication Y''
                 ''https://www.fda.gov/news'' demo_world)) ''sponsor_company'' = None \<and>
   projr (fst (analyze_content demo_env config ''Drug X approved for indication Y''
                 ''https://www.fda.gov/news'' demo_world)) ''confidence_score'' = None"
  by (simp add: demo_analyze)

section \<open>The temporary file of the PDF branch\<close>

text \<open>
  C7.  When \<open>fitz.open\<close> raises, \<open>_extract_pdf_content\<close> returns the empty string and the
  temporary file it created is still on disk: \<open>os.unlink\<close> stands after the parse inside
  the \<open>try\<close> block and is skipped by the exception.  When the parse succeeds the file is
  removed.
\<close>

theorem pdf_tmp_file_left_after_failure:
  "fitz_open demo_env ''%PDF-1.7 broken'' = Inl (Exception ''cannot open broken document'') \<and>
   tmp_files demo_world = {} \<and>
   extract_pdf_content demo_env config ''%PDF-1.7 broken'' demo_world =
     (Inr [], \<lparr> outside = 0, tmp_files = {''/tmp/tmp.pdf''},
                trace = [Pdf_open ''/tmp/tmp.pdf'',
                         Log_error ''PDF parse failed: cannot open broken document''] \<rparr>) \<and>
   tmp_files (snd (extract_pdf_content demo_env config ''%PDF-1.7'' demo_world)) = {}"
  by (simp add: extract_pdf_content_cases demo_env_def demo_world_def Let_def emit_def)

end
